theory Spec2Isabelle
  imports Main "HOL-Library.Word"
begin

section \<open>The delegate of \<^verbatim>\<open>src/entt/signal/delegate.hpp\<close>\<close>

text \<open>
  \<^verbatim>\<open>Delegate<Ret(Args...)>\<close> stores one pair \<^verbatim>\<open>stub\<close>: a \<^verbatim>\<open>const void *\<close> and a pointer
  to an instantiation of the static member template \<^verbatim>\<open>proto<Class, Function>\<close>.
  The embedding keeps the class's layout and its member functions by name.

  \<^item> A \<^verbatim>\<open>const void *\<close> is \<open>None\<close> (\<^verbatim>\<open>nullptr\<close>) or \<open>Some\<close> address.
  \<^item> A pointer to function is \<open>None\<close> (null) or \<open>Some\<close> instantiation of \<^verbatim>\<open>proto\<close>. An
    instantiation is named by its template arguments, because two pointers to function
    compare equal in C++ exactly when they point to the same function. The functions and
    member functions that can stand as the \<^verbatim>\<open>auto Function\<close> argument are named by
    the type variables \<open>'f\<close> and \<open>'m\<close>, the classes by \<open>'c\<close>.
  \<^item> What a named function does when called is not part of the header: it is a parameter
    of the model, the record \<open>program\<close>. A call takes the argument tuple (type \<open>'a\<close>, the
    \<^verbatim>\<open>Args...\<close> of the delegate) and the program state (type \<open>'s\<close>), and yields the
    callee's own result (type \<open>'q\<close>) and the new state. A member function also takes the
    address of the object it is invoked on.
  \<^item> \<^verbatim>\<open>proto\<close> is declared to return \<^verbatim>\<open>Ret\<close> (type \<open>'r\<close>), and \<^verbatim>\<open>connect\<close> accepts
    every callable whose result is convertible to \<^verbatim>\<open>Ret\<close> (\<^verbatim>\<open>std::is_invocable_r_v\<close>),
    so the \<^verbatim>\<open>return\<close> statements of \<^verbatim>\<open>proto\<close> convert the callee's result
    implicitly. That conversion is the field \<open>convert_Ret\<close>.
  \<^item> Calling through a null pointer to function, or invoking a member function through a
    null object pointer, is undefined behaviour in C++: the model returns it as an error.

  Two member functions of the class have no definition here, because their bodies are
  ill-formed for every \<^verbatim>\<open>Ret\<close> and \<^verbatim>\<open>Args...\<close> and no program can call them:
  \<^item> \<^verbatim>\<open>connect<Function>()\<close> (lines 64-68) takes \<^verbatim>\<open>&proto<Function>\<close>, and the only
    \<^verbatim>\<open>proto\<close> is \<^verbatim>\<open>template<typename Class, auto Function>\<close> (line 41): a value stands
    where the type \<^verbatim>\<open>Class\<close> is expected, so the expression names no function;
  \<^item> \<^verbatim>\<open>reset()\<close> (lines 92-94) assigns \<^verbatim>\<open>proto_fn_type{}\<close>, and \<^verbatim>\<open>proto_fn_type\<close>
    (line 38) is a function type, which cannot be value-initialised.

  In \<^verbatim>\<open>proto\<close>, \<^verbatim>\<open>static_cast<Class *>(instance)\<close> (line 44) casts a
  \<^verbatim>\<open>const void *\<close>, which is well-formed when \<^verbatim>\<open>Class\<close> is const-qualified: the member
  functions that can be bound are the const ones, on a \<^verbatim>\<open>const Class *\<close>.
\<close>

subsection \<open>Data\<close>

type_synonym pointer = "nat option"

datatype ('f, 'm) function_arg = Free_function 'f | Member_function 'm

text \<open>The address \<^verbatim>\<open>&proto<Class, Function>\<close>.\<close>

datatype ('c, 'f, 'm) proto_fn = Proto 'c "('f, 'm) function_arg"

text \<open>\<^verbatim>\<open>using stub_type = std::pair<const void *, proto_fn_type *>\<close>, and the class's only
  data member, \<^verbatim>\<open>stub_type stub{}\<close>.\<close>

type_synonym ('c, 'f, 'm) stub_type = "pointer \<times> ('c, 'f, 'm) proto_fn option"

record ('c, 'f, 'm) Delegate =
  stub :: "('c, 'f, 'm) stub_type"

text \<open>The value-initialised member \<^verbatim>\<open>stub{}\<close> of a default-constructed delegate: both
  pointers null.\<close>

definition Delegate_default :: "('c, 'f, 'm) Delegate" where
  "Delegate_default = \<lparr>stub = (None, None)\<rparr>"

datatype error = Null_function_call | Null_instance

record ('f, 'm, 'a, 'q, 'r, 's) program =
  call_function :: "'f \<Rightarrow> 'a \<Rightarrow> 's \<Rightarrow> 'q \<times> 's"
  call_member :: "'m \<Rightarrow> nat \<Rightarrow> 'a \<Rightarrow> 's \<Rightarrow> 'q \<times> 's"
  convert_Ret :: "'q \<Rightarrow> 'r"

subsection \<open>Operations\<close>

text \<open>A \<^verbatim>\<open>return e;\<close> in a function declared to return \<^verbatim>\<open>Ret\<close>.\<close>

fun return_Ret :: "('f, 'm, 'a, 'q, 'r, 's) program \<Rightarrow> 'q \<times> 's \<Rightarrow> 'r \<times> 's" where
  "return_Ret P (q, s) = (convert_Ret P q, s)"

text \<open>\<^verbatim>\<open>proto\<close> (lines 41-48): the \<^verbatim>\<open>if constexpr\<close> on
  \<^verbatim>\<open>std::is_member_function_pointer_v<decltype(Function)>\<close> is the case distinction on the
  template argument.\<close>

fun proto ::
  "('f, 'm, 'a, 'q, 'r, 's) program \<Rightarrow> 'c \<Rightarrow> ('f, 'm) function_arg \<Rightarrow>
    pointer \<Rightarrow> 'a \<Rightarrow> 's \<Rightarrow> error + 'r \<times> 's" where
  "proto P Class (Member_function Function) (Some obj) args s =
     Inr (return_Ret P (call_member P Function obj args s))"
| "proto P Class (Member_function Function) None args s = Inl Null_instance"
| "proto P Class (Free_function Function) instance args s =
     Inr (return_Ret P (call_function P Function args s))"

text \<open>\<^verbatim>\<open>empty\<close> (lines 55-58): \<^verbatim>\<open>return !stub.second;\<close>\<close>

definition empty :: "('c, 'f, 'm) Delegate \<Rightarrow> bool" where
  "empty d = (snd (stub d) = None)"

text \<open>\<^verbatim>\<open>connect<Member, Class>(Class *instance)\<close> (lines 81-85).\<close>

definition connect_Member ::
  "'m \<Rightarrow> 'c \<Rightarrow> pointer \<Rightarrow> ('c, 'f, 'm) Delegate \<Rightarrow> ('c, 'f, 'm) Delegate" where
  "connect_Member Member Class instance d =
     d\<lparr>stub := (instance, Some (Proto Class (Member_function Member)))\<rparr>"

text \<open>\<^verbatim>\<open>operator()\<close> (lines 110-112): \<^verbatim>\<open>return stub.second(stub.first, args...);\<close>
  The body holds no assertion and no test of \<^verbatim>\<open>stub.second\<close>.\<close>

definition operator_call ::
  "('f, 'm, 'a, 'q, 'r, 's) program \<Rightarrow> ('c, 'f, 'm) Delegate \<Rightarrow> 'a \<Rightarrow> 's \<Rightarrow> error + 'r \<times> 's" where
  "operator_call P d args s =
     (case snd (stub d) of
        None \<Rightarrow> Inl Null_function_call
      | Some (Proto Class Function) \<Rightarrow> proto P Class Function (fst (stub d)) args s)"

text \<open>\<^verbatim>\<open>operator==\<close> (lines 122-124) and \<^verbatim>\<open>operator!=\<close> (lines 142-145).\<close>

definition operator_eq :: "('c, 'f, 'm) Delegate \<Rightarrow> ('c, 'f, 'm) Delegate \<Rightarrow> bool" where
  "operator_eq d other \<longleftrightarrow> fst (stub d) = fst (stub other) \<and> snd (stub d) = snd (stub other)"

definition operator_neq :: "('c, 'f, 'm) Delegate \<Rightarrow> ('c, 'f, 'm) Delegate \<Rightarrow> bool" where
  "operator_neq lhs rhs \<longleftrightarrow> \<not> operator_eq lhs rhs"

subsection \<open>A client program\<close>

text \<open>
  A small program that uses the delegate, for evaluating the model on concrete inputs.
  \<^verbatim>\<open>int\<close> is a 32-bit word, \<^verbatim>\<open>unsigned char\<close> an 8-bit word.
  \<^verbatim>\<open>
  int twice(int x) { return 2 * x; }
  struct Counter {
      int count;
      int plus(int n) const { return count + n; }
      int add(int n) const { return n + count; }
  };
  \<close>
  The program state gives the \<^verbatim>\<open>count\<close> of the \<^verbatim>\<open>Counter\<close> at each address. The
  delegates of the examples are bound through a \<^verbatim>\<open>const Counter *\<close>, so the class
  argument \<open>Counter\<close> below stands for \<^verbatim>\<open>const Counter\<close>.
\<close>

datatype example_function = Twice

datatype example_member = Plus | Add

datatype example_class = Counter

type_synonym counters = "nat \<Rightarrow> 32 word"

fun example_functions :: "example_function \<Rightarrow> 32 word \<Rightarrow> counters \<Rightarrow> 32 word \<times> counters" where
  "example_functions Twice x s = (2 * x, s)"

fun example_members ::
  "example_member \<Rightarrow> nat \<Rightarrow> 32 word \<Rightarrow> counters \<Rightarrow> 32 word \<times> counters" where
  "example_members Plus obj n s = (s obj + n, s)"
| "example_members Add obj n s = (n + s obj, s)"

text \<open>The program as seen from a \<^verbatim>\<open>Delegate<Ret(int)>\<close>; \<open>conv\<close> is the implicit
  conversion from \<^verbatim>\<open>int\<close> to \<^verbatim>\<open>Ret\<close>.\<close>

definition example_program ::
  "(32 word \<Rightarrow> 'r) \<Rightarrow>
    (example_function, example_member, 32 word, 32 word, 'r, counters) program" where
  "example_program conv =
     \<lparr>call_function = example_functions, call_member = example_members, convert_Ret = conv\<rparr>"

text \<open>The implicit conversion of C++ from \<^verbatim>\<open>int\<close> to \<^verbatim>\<open>unsigned char\<close> (modulo 256).\<close>

definition int_to_unsigned_char :: "32 word \<Rightarrow> 8 word" where
  "int_to_unsigned_char = ucast"

text \<open>Every counter at zero.\<close>

definition fresh_counters :: counters where
  "fresh_counters = (\<lambda>obj. 0)"

text \<open>A default-constructed delegate of the client program.\<close>

definition example_delegate :: "(example_class, example_function, example_member) Delegate" where
  "example_delegate = Delegate_default"

section \<open>Properties\<close>

subsection \<open>What each operation leaves in \<open>stub\<close>\<close>

lemma stub_default: "stub Delegate_default = (None, None)"
  by (simp add: Delegate_default_def)

lemma stub_connect_Member:
  "stub (connect_Member m c p d) = (p, Some (Proto c (Member_function m)))"
  by (simp add: connect_Member_def)

lemma operator_call_bound_member:
  "operator_call P (connect_Member m c (Some obj) d) a s =
     Inr (return_Ret P (call_member P m obj a s))"
  by (simp add: operator_call_def stub_connect_Member)

lemma return_Ret_eq: "return_Ret P x = (convert_Ret P (fst x), snd x)"
  by (cases x) simp

lemma example_program_simps:
  "call_function (example_program conv) = example_functions"
  "call_member (example_program conv) = example_members"
  "convert_Ret (example_program conv) = conv"
  by (simp_all add: example_program_def)

subsection \<open>Emptiness\<close>

text \<open>Claim C5. A default-constructed delegate is empty: \<^verbatim>\<open>empty()\<close> returns true before
  any \<^verbatim>\<open>connect\<close> has been performed.\<close>

theorem default_constructed_empty: "empty Delegate_default"
  by (simp add: empty_def stub_default)

subsection \<open>Invocation\<close>

text \<open>Claim C2, as the code has it. For every member function \<open>m\<close> that
  \<^verbatim>\<open>connect<m>(obj)\<close> accepts, every non-null instance \<open>obj\<close> and every argument tuple
  \<open>a\<close>, after \<^verbatim>\<open>connect<m>(obj)\<close> invoking the delegate with \<open>a\<close> invokes \<open>m\<close> on \<open>obj\<close>
  with \<open>a\<close> and returns its result converted implicitly to \<^verbatim>\<open>Ret\<close>, with the state the
  call leaves; when \<open>m\<close> returns \<^verbatim>\<open>Ret\<close> itself, that is exactly \<open>(obj->*m)(a...)\<close>.\<close>

theorem operator_call_connect_Member:
  "operator_call P (connect_Member m c (Some obj) d) a s =
     Inr (convert_Ret P (fst (call_member P m obj a s)), snd (call_member P m obj a s))
   \<and> (convert_Ret P' = id \<longrightarrow>
        operator_call P' (connect_Member m c (Some obj) d) a s' =
          Inr (call_member P' m obj a s'))"
  by (simp add: operator_call_bound_member return_Ret_eq)

text \<open>A \<^verbatim>\<open>Delegate<int(int)>\<close> bound to \<^verbatim>\<open>Counter::plus\<close> on a counter at 7 and invoked
  with 5 returns 12 and leaves the counter as it was.\<close>

theorem operator_call_connect_Member_witness:
  "convert_Ret (example_program id) = id
   \<and> operator_call (example_program id)
        (connect_Member Plus Counter (Some 1) example_delegate) 5 (fresh_counters(1 := 7))
      = Inr (12, fresh_counters(1 := 7))"
  using operator_call_connect_Member
    [of "example_program id" Plus Counter 1 example_delegate 5 "fresh_counters(1 := 7)"
      "example_program id" "fresh_counters(1 := 7)"]
  by (simp add: example_program_simps)

text \<open>The claim as stated fails where the member function's result type differs from
  \<^verbatim>\<open>Ret\<close>: a \<^verbatim>\<open>Delegate<unsigned char(int)>\<close>
  bound to \<^verbatim>\<open>Counter::plus\<close> on a counter at zero and invoked with 300 returns 44,
  and the member function returns 300.\<close>

theorem operator_call_connect_Member_counterexample:
  "operator_call (example_program int_to_unsigned_char)
      (connect_Member Plus Counter (Some 1) example_delegate) 300 fresh_counters
     = Inr (44, fresh_counters)
   \<and> call_member (example_program int_to_unsigned_char) Plus 1 300 fresh_counters
     = (300, fresh_counters)
   \<and> uint (44 :: 8 word) \<noteq> uint (300 :: 32 word)"
  by (simp add: operator_call_bound_member example_program_simps int_to_unsigned_char_def
      fresh_counters_def)

text \<open>Claim C3 says that invoking an empty delegate is guarded in debug builds by an
  assertion that aborts before the call is attempted, as the comment above
  \<^verbatim>\<open>operator()\<close> promises. The body of \<^verbatim>\<open>operator()\<close> holds no assertion in any
  build: on a default-constructed delegate it calls through the null \<^verbatim>\<open>stub.second\<close>.\<close>

theorem operator_call_empty_calls_null:
  "operator_call P Delegate_default a s = Inl Null_function_call"
  by (simp add: operator_call_def stub_default)

subsection \<open>Comparison\<close>

text \<open>Claim C6. For two delegates of the same signature, \<^verbatim>\<open>operator==\<close> returns true if
  and only if their stored context pointers compare equal and their stored trampoline
  pointers compare equal. It is identity of the binding, never equality of behaviour:
  what the comparison of two bound delegates yields depends on which member function,
  class and instance were named, and on nothing the callables compute.\<close>

theorem operator_eq_is_identity_of_binding:
  "(operator_eq d1 d2 \<longleftrightarrow>
      fst (stub d1) = fst (stub d2) \<and> snd (stub d1) = snd (stub d2))
   \<and> (operator_eq (connect_Member m c p d1) (connect_Member m' c' p' d2) \<longleftrightarrow>
        m = m' \<and> c = c' \<and> p = p')
   \<and> (operator_neq d1 d2 \<longleftrightarrow> \<not> operator_eq d1 d2)"
proof -
  have "operator_eq (connect_Member m c p d1) (connect_Member m' c' p' d2) \<longleftrightarrow>
      m = m' \<and> c = c' \<and> p = p'"
    by (auto simp: operator_eq_def stub_connect_Member)
  then show ?thesis
    by (simp add: operator_eq_def operator_neq_def)
qed

text \<open>\<^verbatim>\<open>Counter::plus\<close> and \<^verbatim>\<open>Counter::add\<close> compute the same, and delegates bound to
  them on the same instance are not equal.\<close>

theorem operator_eq_is_identity_of_binding_witness:
  "call_member (example_program id) Plus 1 21 fresh_counters
     = call_member (example_program id) Add 1 21 fresh_counters
   \<and> \<not> operator_eq (connect_Member Plus Counter (Some 1) example_delegate)
        (connect_Member Add Counter (Some 1) example_delegate)"
  using operator_eq_is_identity_of_binding
    [of example_delegate example_delegate Plus Counter "Some 1" Add Counter "Some 1"]
  by (simp add: example_program_simps)

text \<open>Claim C9. Two delegates bound to the same member function of the same class but to
  instances at different addresses compare unequal under \<^verbatim>\<open>operator==\<close>.\<close>

theorem same_member_other_instance_unequal:
  assumes "obj1 \<noteq> obj2"
  shows "\<not> operator_eq (connect_Member m c (Some obj1) d1) (connect_Member m c (Some obj2) d2)"
  using assms by (simp add: operator_eq_def stub_connect_Member)

theorem same_member_other_instance_unequal_witness:
  "(1 :: nat) \<noteq> 2
   \<and> \<not> operator_eq (connect_Member Plus Counter (Some 1) example_delegate)
        (connect_Member Plus Counter (Some 2) example_delegate)"
proof -
  have distinct: "(1 :: nat) \<noteq> 2"
    by simp
  from same_member_other_instance_unequal [OF distinct] show ?thesis
    by simp
qed

end
